theory Spec2Isabelle
  imports Main
begin

section \<open>Nano ELS H4: axis controller, spindle encoder, motion controller\<close>

text \<open>
  A shallow embedding of \<^verbatim>\<open>AxisController.h\<close>, \<^verbatim>\<open>SpindleEncoder.h\<close> and
  \<^verbatim>\<open>MotionController.h\<close>. Every class is a record of its member variables and every
  method a function from the old object to the new one.

  Conventions of the embedding:
  \<^item> \<^verbatim>\<open>long\<close> and \<^verbatim>\<open>int\<close> members are \<open>int\<close>. Signed overflow is undefined in C++,
    so the model describes the runs on which no intermediate value leaves the 32-bit
    range; \<^verbatim>\<open>unsigned long\<close> time stamps wrap modulo \<open>2 ^ 32\<close>, written out.
  \<^item> Integer division truncates towards zero (\<open>cdiv\<close>) and traps on a zero divisor:
    the trap is the value \<open>Inl IntegerDivideByZero\<close>.
  \<^item> \<^verbatim>\<open>xSemaphoreTake\<close> succeeds or times out depending on the other tasks. Its
    outcome is a boolean argument (\<open>True\<close>: the mutex was taken), so the early return
    of the source is a branch of the model.
  \<^item> \<^verbatim>\<open>micros()\<close> is an argument. One reading is used for a whole coordinator tick.
  \<^item> Floating point is not modelled. The two places where a \<^verbatim>\<open>float\<close> decides the
    control flow of the axis tick are arguments: \<open>due\<close> (the inter-pulse interval
    \<^verbatim>\<open>1000000.0 / speed\<close> has elapsed) and \<open>ramp\<close> (the value of
    \<^verbatim>\<open>speed + (accelerate ? 1 : -1) * acceleration * delayUs / 1000000.0\<close> converted
    back to \<^verbatim>\<open>long\<close>). The members that only feed these two expressions
    (\<^verbatim>\<open>acceleration\<close>, \<^verbatim>\<open>decelerateSteps\<close>, \<^verbatim>\<open>fractionalPos\<close>, \<^verbatim>\<open>coneRatio\<close>) and the
    members no method reads (\<^verbatim>\<open>movingManually\<close>, \<^verbatim>\<open>gcodeRelativePos\<close>) are left out.
  \<^item> \<^verbatim>\<open>Config.h\<close> is not among the sources; its constants are the fields of
    \<open>config_h\<close>, passed to every function that uses one.
  \<^item> Logging, \<^verbatim>\<open>delay\<close> and \<^verbatim>\<open>delayMicroseconds\<close> have no effect on the state.
\<close>

subsection \<open>Config.h, limits.h and integer division\<close>

record config_h =
  ENCODER_STEPS_INT :: int
  ENCODER_BACKLASH :: int
  PCNT_CLEAR :: int
  DUPR_MAX :: int
  STARTS_MAX :: int
  MODE_NORMAL :: int
  MODE_ASYNC :: int
  MODE_CONE :: int
  MODE_TURN :: int
  MODE_FACE :: int
  MODE_CUT :: int
  MODE_THREAD :: int
  MODE_ELLIPSE :: int
  MODE_GCODE :: int
  MODE_A1 :: int

definition LONG_MAX :: int where
  "LONG_MAX = 2147483647"

definition LONG_MIN :: int where
  "LONG_MIN = - 2147483648"

datatype fault = IntegerDivideByZero

definition cdiv :: "int \<Rightarrow> int \<Rightarrow> int" where
  "cdiv a b = sgn a * sgn b * (\<bar>a\<bar> div \<bar>b\<bar>)"

definition long_div :: "int \<Rightarrow> int \<Rightarrow> fault + int" where
  "long_div a b = (if b = 0 then Inl IntegerDivideByZero else Inr (cdiv a b))"

definition elapsed_us :: "int \<Rightarrow> int \<Rightarrow> int" where
  "elapsed_us now start = (now - start) mod 2 ^ 32"

subsection \<open>AxisController\<close>

text \<open>
  The fields of \<^verbatim>\<open>AxisConfig\<close> that a modelled method reads. \<open>estopSteps\<close> and
  \<open>backlashSteps\<close> are computed once, in floating point, by the constructor and never
  written again; they are constructor arguments here.
\<close>

record axis_config =
  active :: bool
  invertStepper :: bool
  needsRest :: bool
  speedStart :: int

text \<open>
  The object. \<open>enaPin\<close> and \<open>dirPin\<close> hold the level last written to the pin
  (\<open>True\<close> is \<^verbatim>\<open>HIGH\<close>); \<open>stepPulses\<close> counts the pulses written to the step pin
  (\<^verbatim>\<open>digitalWrite(stepPin, LOW)\<close> followed by \<^verbatim>\<open>digitalWrite(stepPin, HIGH)\<close>).
\<close>

record axis =
  config :: axis_config
  pos :: int
  originPos :: int
  posGlobal :: int
  motorPos :: int
  pendingPos :: int
  leftStop :: int
  rightStop :: int
  speed :: int
  speedMax :: int
  direction :: bool
  directionInitialized :: bool
  stepStartUs :: int
  stepperEnableCounter :: int
  disabled :: bool
  continuous :: bool
  estopSteps :: int
  backlashSteps :: int
  enaPin :: bool
  dirPin :: bool
  stepPulses :: nat

definition AxisController :: "axis_config \<Rightarrow> int \<Rightarrow> int \<Rightarrow> axis" where
  "AxisController cfg estop backlash =
     \<lparr> config = cfg, pos = 0, originPos = 0, posGlobal = 0, motorPos = 0, pendingPos = 0,
       leftStop = LONG_MAX, rightStop = LONG_MIN,
       speed = speedStart cfg, speedMax = LONG_MAX,
       direction = True, directionInitialized = False, stepStartUs = 0,
       stepperEnableCounter = 0, disabled = False, continuous = False,
       estopSteps = estop, backlashSteps = backlash,
       enaPin = False, dirPin = False, stepPulses = 0 \<rparr>"

text \<open>\<^verbatim>\<open>moveTo\<close>: the result is the returned flag and the object after the call.\<close>

definition moveTo :: "bool \<Rightarrow> int \<Rightarrow> bool \<Rightarrow> axis \<Rightarrow> bool \<times> axis" where
  "moveTo lock newPos continuousMode a =
     (if lock then
        (let a1 = a\<lparr>continuous := continuousMode\<rparr> in
         if newPos = pos a1 then (True, a1\<lparr>pendingPos := 0\<rparr>)
         else
           (let a2 = a1\<lparr>pendingPos :=
                        newPos - motorPos a1 - (if newPos > pos a1 then 0 else backlashSteps a1)\<rparr>;
                travel = \<bar>newPos - pos a2\<bar>
            in if travel > estopSteps a2 then (False, a2) else (True, a2)))
      else (False, a))"

definition setDirection :: "bool \<Rightarrow> axis \<Rightarrow> axis" where
  "setDirection dir a =
     (if direction a = dir \<and> directionInitialized a then a
      else a\<lparr>speed := speedStart (config a), direction := dir, directionInitialized := True,
             dirPin := (dir \<noteq> invertStepper (config a))\<rparr>)"

text \<open>
  \<^verbatim>\<open>update\<close>, the stepping tick. \<open>now\<close> is \<^verbatim>\<open>micros()\<close>, \<open>due\<close> is the negation of
  \<^verbatim>\<open>nowUs - stepStartUs < delayUs - 5\<close>, \<open>lock\<close> the outcome of
  \<^verbatim>\<open>xSemaphoreTake(mutex, 1)\<close>, \<open>ramp\<close> the new speed before it is clamped.
\<close>

definition axis_update :: "int \<Rightarrow> bool \<Rightarrow> bool \<Rightarrow> int \<Rightarrow> axis \<Rightarrow> axis" where
  "axis_update now due lock ramp a =
     (if pendingPos a = 0 then
        (if speed a > speedStart (config a) then a\<lparr>speed := speed a - 1\<rparr> else a)
      else if due \<and> lock then
        (let dir = pendingPos a > 0;
             a1 = setDirection dir a;
             delta = (if dir then 1 else - 1);
             a2 = a1\<lparr>pendingPos := pendingPos a1 - delta\<rparr>;
             a3 = (if dir \<and> motorPos a2 \<ge> pos a2 then a2\<lparr>pos := pos a2 + 1\<rparr>
                   else if \<not> dir \<and> motorPos a2 \<le> pos a2 - backlashSteps a2
                        then a2\<lparr>pos := pos a2 - 1\<rparr>
                   else a2);
             a4 = a3\<lparr>motorPos := motorPos a3 + delta, posGlobal := posGlobal a3 + delta\<rparr>;
             a5 = a4\<lparr>speed := (if ramp > speedMax a4 then speedMax a4
                                 else if ramp < speedStart (config a4) then speedStart (config a4)
                                 else ramp)\<rparr>
         in a5\<lparr>stepStartUs := now, stepPulses := stepPulses a5 + 1\<rparr>)
      else a)"

definition updateEnablePin :: "axis \<Rightarrow> axis" where
  "updateEnablePin a =
     a\<lparr>enaPin := (if disabled a then False
                  else if needsRest (config a) then stepperEnableCounter a > 0
                  else True)\<rparr>"

definition axis_setEnabled :: "bool \<Rightarrow> axis \<Rightarrow> axis" where
  "axis_setEnabled enable a =
     (if needsRest (config a) \<and> active (config a) then
        (if enable then
           (let a1 = a\<lparr>stepperEnableCounter := stepperEnableCounter a + 1\<rparr>
            in if stepperEnableCounter a1 = 1 then updateEnablePin a1 else a1)
         else if stepperEnableCounter a > 0 then
           (let a1 = a\<lparr>stepperEnableCounter := stepperEnableCounter a - 1\<rparr>
            in if stepperEnableCounter a1 = 0 then updateEnablePin a1 else a1)
         else a)
      else a)"

definition setLeftStop :: "int \<Rightarrow> axis \<Rightarrow> axis" where
  "setLeftStop stopPos a = a\<lparr>leftStop := stopPos\<rparr>"

definition setRightStop :: "int \<Rightarrow> axis \<Rightarrow> axis" where
  "setRightStop stopPos a = a\<lparr>rightStop := stopPos\<rparr>"

definition setOrigin :: "bool \<Rightarrow> axis \<Rightarrow> axis" where
  "setOrigin lock a =
     (if lock then
        (let a1 = (if leftStop a = LONG_MAX then a else a\<lparr>leftStop := leftStop a - pos a\<rparr>);
             a2 = (if rightStop a1 = LONG_MIN then a1 else a1\<lparr>rightStop := rightStop a1 - pos a1\<rparr>);
             a3 = a2\<lparr>motorPos := motorPos a2 - pos a2, originPos := originPos a2 + pos a2\<rparr>
         in a3\<lparr>pos := 0, pendingPos := 0\<rparr>)
      else a)"

definition getPositionSteps :: "axis \<Rightarrow> int" where
  "getPositionSteps a = pos a"

definition isMoving :: "int \<Rightarrow> axis \<Rightarrow> bool" where
  "isMoving now a = (if pendingPos a = 0 then elapsed_us now (stepStartUs a) < 50000 else True)"

definition setMaxSpeed :: "int \<Rightarrow> axis \<Rightarrow> axis" where
  "setMaxSpeed maxSpeed a = a\<lparr>speedMax := maxSpeed\<rparr>"

subsection \<open>SpindleEncoder\<close>

record encoder =
  position :: int
  positionAvg :: int
  positionGlobal :: int
  counterValue :: int
  lastUpdateUs :: int
  bulkStartTimeUs :: int
  bulkPulseCount :: int
  currentRpm :: int
  lastRpmUpdateUs :: int
  syncOffset :: int

definition SpindleEncoder :: "int \<Rightarrow> encoder" where
  "SpindleEncoder now =
     \<lparr> position = 0, positionAvg = 0, positionGlobal = 0, counterValue = 0,
       lastUpdateUs = now, bulkStartTimeUs = now, bulkPulseCount = 0,
       currentRpm = 0, lastRpmUpdateUs = now, syncOffset = 0 \<rparr>"

definition processPulses :: "config_h \<Rightarrow> int \<Rightarrow> int \<Rightarrow> encoder \<Rightarrow> encoder" where
  "processPulses c microsNow delta e =
     (let e1 = (if bulkPulseCount e \<ge> ENCODER_STEPS_INT c then
                  (let timeDiff = elapsed_us microsNow (bulkStartTimeUs e)
                   in e\<lparr>currentRpm := (if timeDiff > 0 then 60000000 div timeDiff else currentRpm e),
                        bulkStartTimeUs := microsNow, bulkPulseCount := 0\<rparr>)
                else e);
          e2 = e1\<lparr>bulkPulseCount := bulkPulseCount e1 + \<bar>delta\<bar>\<rparr>;
          e3 = e2\<lparr>position := position e2 + delta, positionGlobal := positionGlobal e2 + delta\<rparr>;
          e4 = (if positionGlobal e3 > ENCODER_STEPS_INT c
                  then e3\<lparr>positionGlobal := positionGlobal e3 - ENCODER_STEPS_INT c\<rparr>
                else if positionGlobal e3 < 0
                  then e3\<lparr>positionGlobal := positionGlobal e3 + ENCODER_STEPS_INT c\<rparr>
                else e3);
          e5 = (if position e4 > positionAvg e4 then e4\<lparr>positionAvg := position e4\<rparr>
                else if position e4 < positionAvg e4 - ENCODER_BACKLASH c
                  then e4\<lparr>positionAvg := position e4 + ENCODER_BACKLASH c\<rparr>
                else e4)
      in e5\<lparr>lastUpdateUs := microsNow\<rparr>)"

text \<open>\<^verbatim>\<open>update\<close>: \<open>cnt\<close> is the value read from the hardware pulse counter.\<close>

definition encoder_update :: "config_h \<Rightarrow> int \<Rightarrow> int \<Rightarrow> encoder \<Rightarrow> encoder" where
  "encoder_update c microsNow cnt e =
     (let delta = cnt - counterValue e in
      if delta = 0 then e
      else processPulses c microsNow delta
             (e\<lparr>counterValue := (if cnt \<ge> PCNT_CLEAR c \<or> cnt \<le> - PCNT_CLEAR c then 0 else cnt)\<rparr>))"

definition getAveragePosition :: "encoder \<Rightarrow> int" where
  "getAveragePosition e = positionAvg e"

definition getSyncOffset :: "encoder \<Rightarrow> int" where
  "getSyncOffset e = syncOffset e"

definition resetPosition :: "encoder \<Rightarrow> encoder" where
  "resetPosition e = e\<lparr>position := 0, positionAvg := 0, syncOffset := 0\<rparr>"

text \<open>A sequence of pulse deltas, each handed to \<^verbatim>\<open>processPulses\<close> at its own time.\<close>

fun feed :: "config_h \<Rightarrow> (int \<times> int) list \<Rightarrow> encoder \<Rightarrow> encoder" where
  "feed c [] e = e"
| "feed c ((microsNow, delta) # ds) e = feed c ds (processPulses c microsNow delta e)"

subsection \<open>MotionController\<close>

record motion =
  spindle :: encoder
  zAxis :: axis
  xAxis :: axis
  a1Axis :: axis
  currentMode :: int
  systemEnabled :: bool
  currentPitch :: int
  currentStarts :: int
  operationIndex :: int
  operationSubIndex :: int
  operationAdvanceFlag :: bool
  operationStartPitch :: int
  operationPitchSign :: int
  turnPasses :: int
  auxDirectionForward :: bool

definition MotionController :: "encoder \<Rightarrow> axis \<Rightarrow> axis \<Rightarrow> axis \<Rightarrow> motion" where
  "MotionController spindleEnc zAxisCtrl xAxisCtrl a1AxisCtrl =
     \<lparr> spindle = spindleEnc, zAxis = zAxisCtrl, xAxis = xAxisCtrl, a1Axis = a1AxisCtrl,
       currentMode = 0, systemEnabled = False, currentPitch = 0, currentStarts = 1,
       operationIndex = 0, operationSubIndex = 0, operationAdvanceFlag = False,
       operationStartPitch = 0, operationPitchSign = 1, turnPasses = 3,
       auxDirectionForward = True \<rparr>"

text \<open>
  The outcomes of the \<^verbatim>\<open>xSemaphoreTake\<close> calls that a coordinator command makes on the
  three axis mutexes.
\<close>

record locks =
  zLock :: bool
  xLock :: bool
  a1Lock :: bool

text \<open>What one axis tick reads from its environment (see \<open>axis_update\<close>).\<close>

record axis_tick =
  stepDue :: bool
  stepLock :: bool
  stepRamp :: int

text \<open>
  What one coordinator tick reads from its environment: the outcome of taking
  \<^verbatim>\<open>motionMutex\<close>, \<^verbatim>\<open>micros()\<close>, the hardware pulse counter, the mutex outcomes of
  the commands the mode code issues, the outcome of the two floating-point tests of
  \<^verbatim>\<open>updateConeMode\<close> (\<^verbatim>\<open>coneRatio\<close> and \<^verbatim>\<open>zToXRatio\<close> both non-zero), and the three
  axis ticks.
\<close>

record tick =
  motionLock :: bool
  nowUs :: int
  pcnt :: int
  modeLocks :: locks
  coneRatioNonZero :: bool
  zTick :: axis_tick
  xTick :: axis_tick
  a1Tick :: axis_tick

definition isActive :: "axis \<Rightarrow> bool" where
  "isActive a = active (config a)"

definition setNewOrigin :: "locks \<Rightarrow> motion \<Rightarrow> motion" where
  "setNewOrigin L m =
     (let m1 = m\<lparr>zAxis := setOrigin (zLock L) (zAxis m)\<rparr>;
          m2 = m1\<lparr>xAxis := setOrigin (xLock L) (xAxis m1)\<rparr>;
          m3 = (if isActive (a1Axis m2) then m2\<lparr>a1Axis := setOrigin (a1Lock L) (a1Axis m2)\<rparr>
                else m2)
      in m3\<lparr>spindle := resetPosition (spindle m3)\<rparr>)"

definition motion_setEnabled :: "locks \<Rightarrow> bool \<Rightarrow> motion \<Rightarrow> motion" where
  "motion_setEnabled L enable m =
     (if systemEnabled m \<and> enable then m
      else if \<not> enable then m\<lparr>systemEnabled := False, operationIndex := 0\<rparr>
      else
        (let m1 = m\<lparr>zAxis := axis_setEnabled True (zAxis m)\<rparr>;
             m2 = m1\<lparr>xAxis := axis_setEnabled True (xAxis m1)\<rparr>;
             m3 = (if isActive (a1Axis m2) then m2\<lparr>a1Axis := axis_setEnabled True (a1Axis m2)\<rparr>
                   else m2);
             m4 = setNewOrigin L m3
         in m4\<lparr>systemEnabled := True,
               operationPitchSign := (if currentPitch m4 \<ge> 0 then 1 else - 1),
               operationStartPitch := currentPitch m4,
               operationIndex := 0,
               operationAdvanceFlag := False,
               operationSubIndex := 0\<rparr>))"

definition setOperationMode :: "locks \<Rightarrow> int \<Rightarrow> motion \<Rightarrow> motion" where
  "setOperationMode L mode m =
     (if currentMode m = mode then m
      else
        (let m1 = (if systemEnabled m then motion_setEnabled L False m else m)
         in m1\<lparr>currentMode := mode, operationIndex := 0\<rparr>))"

definition setPitch :: "config_h \<Rightarrow> locks \<Rightarrow> int \<Rightarrow> motion \<Rightarrow> motion" where
  "setPitch c L pitch m =
     (if pitch < - DUPR_MAX c \<or> pitch > DUPR_MAX c then m
      else setNewOrigin L (m\<lparr>currentPitch := pitch\<rparr>))"

definition setStarts :: "config_h \<Rightarrow> locks \<Rightarrow> int \<Rightarrow> motion \<Rightarrow> motion" where
  "setStarts c L starts m =
     (if starts < 1 \<or> starts > STARTS_MAX c then m
      else setNewOrigin L (m\<lparr>currentStarts := starts\<rparr>))"

definition calculateAxisPosition :: "config_h \<Rightarrow> motion \<Rightarrow> axis \<Rightarrow> int \<Rightarrow> bool \<Rightarrow> fault + int" where
  "calculateAxisPosition c m a spindlePos respectStops =
     (case long_div (spindlePos * getPositionSteps a) (getPositionSteps a) of
        Inl e \<Rightarrow> Inl e
      | Inr q1 \<Rightarrow>
          (case long_div q1 (ENCODER_STEPS_INT c) of
             Inl e \<Rightarrow> Inl e
           | Inr q2 \<Rightarrow>
               (let newPos = q2 * currentPitch m * currentStarts m
                in Inr (if respectStops then
                          (if newPos < rightStop a then rightStop a
                           else if newPos > leftStop a then leftStop a
                           else newPos)
                        else newPos))))"

definition calculateSpindlePosition :: "config_h \<Rightarrow> motion \<Rightarrow> axis \<Rightarrow> int \<Rightarrow> fault + int" where
  "calculateSpindlePosition c m a axisPos =
     (case long_div (axisPos * getPositionSteps a) (getPositionSteps a) of
        Inl e \<Rightarrow> Inl e
      | Inr q1 \<Rightarrow> long_div (q1 * ENCODER_STEPS_INT c) (currentPitch m * currentStarts m))"

definition updateNormalMode :: "config_h \<Rightarrow> tick \<Rightarrow> motion \<Rightarrow> fault + motion" where
  "updateNormalMode c t m =
     (if isMoving (nowUs t) (zAxis m) then Inr m
      else
        (case calculateAxisPosition c m (zAxis m) (getAveragePosition (spindle m)) True of
           Inl e \<Rightarrow> Inl e
         | Inr targetPos \<Rightarrow>
             (if targetPos \<noteq> getPositionSteps (zAxis m)
              then Inr (m\<lparr>zAxis := snd (moveTo (zLock (modeLocks t)) targetPos True (zAxis m))\<rparr>)
              else Inr m)))"

definition updateConeMode :: "tick \<Rightarrow> motion \<Rightarrow> motion" where
  "updateConeMode t m =
     (if isMoving (nowUs t) (zAxis m) \<or> isMoving (nowUs t) (xAxis m) then m
      else if coneRatioNonZero t then
        (let m1 = m\<lparr>xAxis := setMaxSpeed LONG_MAX (xAxis m)\<rparr>
         in m1\<lparr>zAxis := setMaxSpeed LONG_MAX (zAxis m1)\<rparr>)
      else m)"

definition updateTurnMode :: "tick \<Rightarrow> motion \<Rightarrow> motion" where
  "updateTurnMode t m =
     (if isMoving (nowUs t) (zAxis m) \<or> isMoving (nowUs t) (xAxis m) \<or> turnPasses m \<le> 0 \<or>
         leftStop (zAxis m) = LONG_MAX \<or> rightStop (zAxis m) = LONG_MIN \<or>
         leftStop (xAxis m) = LONG_MAX \<or> rightStop (xAxis m) = LONG_MIN \<or>
         currentPitch m = 0 \<or> currentPitch m * operationPitchSign m < 0 \<or> currentStarts m < 1
      then motion_setEnabled (modeLocks t) False m
      else m)"

text \<open>
  The \<^verbatim>\<open>switch\<close> of \<^verbatim>\<open>update\<close>. The other seven modes only write to the log, and so
  does the \<^verbatim>\<open>default\<close> branch.
\<close>

definition updateMode :: "config_h \<Rightarrow> tick \<Rightarrow> motion \<Rightarrow> fault + motion" where
  "updateMode c t m =
     (if currentMode m = MODE_NORMAL c then updateNormalMode c t m
      else if currentMode m = MODE_ASYNC c then Inr m
      else if currentMode m = MODE_CONE c then Inr (updateConeMode t m)
      else if currentMode m = MODE_TURN c then Inr (updateTurnMode t m)
      else Inr m)"

definition motion_update :: "config_h \<Rightarrow> tick \<Rightarrow> motion \<Rightarrow> fault + motion" where
  "motion_update c t m =
     (if motionLock t then
        (let m1 = m\<lparr>spindle := encoder_update c (nowUs t) (pcnt t) (spindle m)\<rparr> in
         case (if systemEnabled m1 \<and> currentPitch m1 \<noteq> 0 \<and> getSyncOffset (spindle m1) = 0
               then updateMode c t m1 else Inr m1) of
           Inl e \<Rightarrow> Inl e
         | Inr m2 \<Rightarrow>
             (let m3 = m2\<lparr>zAxis := axis_update (nowUs t) (stepDue (zTick t)) (stepLock (zTick t))
                                      (stepRamp (zTick t)) (zAxis m2)\<rparr>;
                  m4 = m3\<lparr>xAxis := axis_update (nowUs t) (stepDue (xTick t)) (stepLock (xTick t))
                                      (stepRamp (xTick t)) (xAxis m3)\<rparr>
              in Inr (if isActive (a1Axis m4)
                      then m4\<lparr>a1Axis := axis_update (nowUs t) (stepDue (a1Tick t)) (stepLock (a1Tick t))
                                           (stepRamp (a1Tick t)) (a1Axis m4)\<rparr>
                      else m4)))
      else Inr m)"

subsection \<open>Runs, invariants and concrete configurations\<close>

text \<open>The backlash bound of the axis: the motor frame is within the backlash of the tool frame.\<close>

definition backlash_bound :: "axis \<Rightarrow> bool" where
  "backlash_bound a = (\<bar>motorPos a - pos a\<bar> \<le> backlashSteps a)"

text \<open>A run of one axis: \<^verbatim>\<open>moveTo\<close> commands and stepping ticks in any order.\<close>

datatype axis_op = MoveTo bool int bool | Update int bool bool int

fun axis_step :: "axis_op \<Rightarrow> axis \<Rightarrow> axis" where
  "axis_step (MoveTo lock newPos continuousMode) a = snd (moveTo lock newPos continuousMode a)"
| "axis_step (Update now due lock ramp) a = axis_update now due lock ramp a"

fun axis_run :: "axis_op list \<Rightarrow> axis \<Rightarrow> axis" where
  "axis_run [] a = a"
| "axis_run (op # ops) a = axis_run ops (axis_step op a)"

text \<open>
  The soft stops of an axis, seen from its targets. \<open>within_stops a\<close> holds of a command
  whose target lies between the stops of \<open>a\<close>. \<open>stops_kept\<close> holds of an axis whose tool
  is between its stops and whose outstanding motion ends between them: a forward motion
  ends with the tool at \<open>motorPos + pendingPos\<close> at most, a reverse motion with the tool at
  \<open>motorPos + pendingPos + backlashSteps\<close> at least.
\<close>

fun within_stops :: "axis \<Rightarrow> axis_op \<Rightarrow> bool" where
  "within_stops a (MoveTo lock newPos continuousMode) =
     (rightStop a \<le> newPos \<and> newPos \<le> leftStop a)"
| "within_stops a (Update now due lock ramp) = True"

definition stops_kept :: "axis \<Rightarrow> bool" where
  "stops_kept a =
     (rightStop a \<le> pos a \<and> pos a \<le> leftStop a \<and> 0 \<le> backlashSteps a \<and>
      (0 < pendingPos a \<longrightarrow> motorPos a + pendingPos a \<le> leftStop a) \<and>
      (pendingPos a < 0 \<longrightarrow> rightStop a \<le> motorPos a + pendingPos a + backlashSteps a))"

text \<open>The window of the encoder's backlash compensation.\<close>

definition enc_window :: "config_h \<Rightarrow> encoder \<Rightarrow> bool" where
  "enc_window c e =
     (position e \<le> positionAvg e \<and> positionAvg e \<le> position e + ENCODER_BACKLASH c)"

text \<open>
  Concrete objects for the closed instances below: a \<^verbatim>\<open>Config.h\<close> with an encoder of
  2400 counts per revolution and an encoder backlash of 5, and a Z axis with
  \<open>estopSteps = 10000\<close> and \<open>backlashSteps = 50\<close>.
\<close>

definition test_config :: config_h where
  "test_config =
     \<lparr> ENCODER_STEPS_INT = 2400, ENCODER_BACKLASH = 5, PCNT_CLEAR = 30000,
       DUPR_MAX = 254000, STARTS_MAX = 124,
       MODE_NORMAL = 0, MODE_ASYNC = 2, MODE_CONE = 3, MODE_TURN = 4, MODE_FACE = 5,
       MODE_CUT = 6, MODE_THREAD = 7, MODE_ELLIPSE = 8, MODE_GCODE = 9, MODE_A1 = 10 \<rparr>"

definition z_config :: axis_config where
  "z_config = \<lparr> active = True, invertStepper = False, needsRest = True, speedStart = 500 \<rparr>"

definition z_axis :: axis where
  "z_axis = AxisController z_config 10000 50"

definition stops_axis :: axis where
  "stops_axis = setRightStop (- 1) (setLeftStop 1 (AxisController z_config 100 50))"

text \<open>
  A lathe: the Z axis above (its driver needs rest), an X axis whose driver does not, and
  an inactive A1 axis, under a coordinator constructed as the source does.
\<close>

definition x_config :: axis_config where
  "x_config = \<lparr> active = True, invertStepper = False, needsRest = False, speedStart = 500 \<rparr>"

definition a1_config :: axis_config where
  "a1_config = \<lparr> active = False, invertStepper = False, needsRest = True, speedStart = 500 \<rparr>"

definition lathe :: motion where
  "lathe = MotionController (SpindleEncoder 0) z_axis (AxisController x_config 10000 20)
             (AxisController a1_config 10000 0)"

definition all_locks :: locks where
  "all_locks = \<lparr> zLock = True, xLock = True, a1Lock = True \<rparr>"

text \<open>A coordinator tick at time \<open>now\<close> with hardware counter \<open>cnt\<close>: every mutex is free
  and every axis is due for a pulse.\<close>

definition tick_at :: "int \<Rightarrow> int \<Rightarrow> tick" where
  "tick_at now cnt =
     \<lparr> motionLock = True, nowUs = now, pcnt = cnt, modeLocks = all_locks,
       coneRatioNonZero = True,
       zTick = \<lparr> stepDue = True, stepLock = True, stepRamp = 510 \<rparr>,
       xTick = \<lparr> stepDue = True, stepLock = True, stepRamp = 510 \<rparr>,
       a1Tick = \<lparr> stepDue = True, stepLock = True, stepRamp = 510 \<rparr> \<rparr>"

text \<open>
  The lathe in Normal mode (\<^verbatim>\<open>currentMode\<close> is 0, which is \<open>MODE_NORMAL test_config\<close>)
  with a pitch of 1000 du, switched on; the same with the tool jogged to \<open>pos = 5\<close> and the
  spindle at \<open>avg\<close>; that with Z stops at \<open>- 1000\<close> and \<open>1000\<close> after four revolutions;
  and the lathe switched on with a Z target of 5 steps outstanding.
\<close>

definition following :: motion where
  "following = motion_setEnabled all_locks True (setPitch test_config all_locks 1000 lathe)"

definition jogged :: "int \<Rightarrow> motion" where
  "jogged avg =
     following\<lparr>zAxis := (zAxis following)\<lparr>pos := 5, motorPos := 5\<rparr>,
               spindle := (spindle following)\<lparr>position := avg, positionAvg := avg\<rparr>\<rparr>"

definition cutting :: motion where
  "cutting =
     (jogged 9600)\<lparr>zAxis := setRightStop (- 1000) (setLeftStop 1000 (zAxis (jogged 9600)))\<rparr>"

definition busy :: motion where
  "busy = following\<lparr>zAxis := snd (moveTo True 5 False (zAxis following))\<rparr>"



text \<open>A run of coordinator ticks; it stops at the first trap.\<close>

fun motion_ticks :: "config_h \<Rightarrow> tick list \<Rightarrow> motion \<Rightarrow> fault + motion" where
  "motion_ticks c [] m = Inr m"
| "motion_ticks c (t # ts) m =
     (case motion_update c t m of Inl e \<Rightarrow> Inl e | Inr m' \<Rightarrow> motion_ticks c ts m')"

text \<open>
  An axis that receives no new target between \<open>a\<close> and \<open>a'\<close>: the motor position it is
  heading for (\<open>motorPos + pendingPos\<close>) and the \<^verbatim>\<open>continuous\<close> flag are the same, and the
  distance left has not grown.
\<close>

definition winds_down :: "axis \<Rightarrow> axis \<Rightarrow> bool" where
  "winds_down a a' =
     (motorPos a' + pendingPos a' = motorPos a + pendingPos a \<and>
      continuous a' = continuous a \<and>
      \<bar>pendingPos a'\<bar> \<le> \<bar>pendingPos a\<bar>)"




text \<open>
  A sequence of coordinator \<^verbatim>\<open>setEnabled\<close> calls, each with the mutex outcomes of its
  \<^verbatim>\<open>setNewOrigin\<close>; \<open>alternating b\<close> holds when the calls alternate, starting with
  \<^verbatim>\<open>setEnabled(b)\<close>; \<open>enables\<close> counts the calls with \<^verbatim>\<open>true\<close>.
\<close>

fun switching :: "(bool \<times> locks) list \<Rightarrow> motion \<Rightarrow> motion" where
  "switching [] m = m"
| "switching ((enable, L) # cs) m = switching cs (motion_setEnabled L enable m)"

fun alternating :: "bool \<Rightarrow> (bool \<times> locks) list \<Rightarrow> bool" where
  "alternating b [] = True"
| "alternating b ((enable, L) # cs) = (enable = b \<and> alternating (\<not> b) cs)"

definition enables :: "(bool \<times> locks) list \<Rightarrow> int" where
  "enables cs = int (length (filter fst cs))"

text \<open>
  The enable bookkeeping of one axis after \<open>n\<close> coordinator enables. An active axis whose
  driver needs rest has counted all of them, and its enable pin was written once, when the
  counter left 0; any other axis is untouched.
\<close>

definition held_awake :: "int \<Rightarrow> axis \<Rightarrow> axis \<Rightarrow> bool" where
  "held_awake n a a' =
     (config a' = config a \<and> disabled a' = disabled a \<and>
      (if needsRest (config a) \<and> active (config a) then
         stepperEnableCounter a' = stepperEnableCounter a + n \<and>
         enaPin a' = (if 0 < n \<and> stepperEnableCounter a = 0 then \<not> disabled a else enaPin a)
       else stepperEnableCounter a' = stepperEnableCounter a \<and> enaPin a' = enaPin a))"

section \<open>Properties\<close>

lemmas axis_eval = z_axis_def z_config_def AxisController_def moveTo_def axis_update_def
  setDirection_def Let_def LONG_MAX_def LONG_MIN_def

subsection \<open>The axis: frames, backlash bound, target commands\<close>

lemma moveTo_frame:
  "pos (snd (moveTo lock newPos c a)) = pos a"
  "motorPos (snd (moveTo lock newPos c a)) = motorPos a"
  "backlashSteps (snd (moveTo lock newPos c a)) = backlashSteps a"
  "estopSteps (snd (moveTo lock newPos c a)) = estopSteps a"
  by (simp_all add: moveTo_def Let_def)

lemma setDirection_frame:
  "pos (setDirection d a) = pos a"
  "motorPos (setDirection d a) = motorPos a"
  "backlashSteps (setDirection d a) = backlashSteps a"
  "pendingPos (setDirection d a) = pendingPos a"
  "continuous (setDirection d a) = continuous a"
  "stepPulses (setDirection d a) = stepPulses a"
  by (simp_all add: setDirection_def)

lemma axis_update_backlashSteps:
  "backlashSteps (axis_update now due lock ramp a) = backlashSteps a"
  by (simp add: axis_update_def Let_def setDirection_frame)

text \<open>
  One pulse changes the gap between motor and tool by at most one, and only towards the
  side the motor is moving to.
\<close>

lemma axis_update_gap:
  "motorPos (axis_update now due lock ramp a) - pos (axis_update now due lock ramp a) =
     (if pendingPos a = 0 \<or> \<not> (due \<and> lock) then motorPos a - pos a
      else if pendingPos a > 0
        then (if motorPos a \<ge> pos a then motorPos a - pos a else motorPos a - pos a + 1)
      else (if motorPos a \<le> pos a - backlashSteps a then motorPos a - pos a
            else motorPos a - pos a - 1))"
  by (simp add: axis_update_def Let_def setDirection_frame)

lemma axis_update_backlash_bound:
  "backlash_bound a \<Longrightarrow> backlash_bound (axis_update now due lock ramp a)"
  unfolding backlash_bound_def axis_update_backlashSteps axis_update_gap
  by (auto split: if_splits)

lemma axis_step_backlash_bound:
  "backlash_bound a \<Longrightarrow> backlash_bound (axis_step op a)"
  by (cases op) (simp_all add: axis_update_backlash_bound, simp add: backlash_bound_def moveTo_frame)

text \<open>
  Claim C4. From a state where \<open>\<bar>motorPos - pos\<bar> \<le> backlashSteps\<close> holds, it holds after
  every prefix of every sequence of \<^verbatim>\<open>moveTo\<close> commands (accepted or not) and stepping
  ticks, that is, at every tick boundary of the run.
\<close>

theorem backlash_bound_invariant:
  "backlash_bound a \<Longrightarrow> backlash_bound (axis_run (take n ops) a)"
proof (induction ops arbitrary: a n)
  case Nil
  then show ?case by simp
next
  case (Cons op ops)
  show ?case
  proof (cases n)
    case 0
    with Cons.prems show ?thesis by simp
  next
    case (Suc k)
    from Cons.prems have "backlash_bound (axis_step op a)"
      by (rule axis_step_backlash_bound)
    then have "backlash_bound (axis_run (take k ops) (axis_step op a))"
      by (rule Cons.IH)
    with Suc show ?thesis by simp
  qed
qed

theorem backlash_bound_invariant_witness:
  "backlash_bound z_axis \<and>
   backlash_bound (axis_run (take 4 [MoveTo True 2 False, Update 2000 True True 510,
                                     Update 4000 True True 520, MoveTo True 0 True,
                                     Update 6000 True True 530]) z_axis)"
proof -
  have h: "backlash_bound z_axis"
    by (simp add: backlash_bound_def axis_eval)
  from backlash_bound_invariant [OF h] h show ?thesis by blast
qed

text \<open>
  Claim C7. An accepted \<^verbatim>\<open>moveTo(target)\<close> leaves \<open>pendingPos = 0\<close> when the target is
  the current \<open>pos\<close>, and otherwise \<open>target - motorPos\<close>, less \<open>backlashSteps\<close> when the
  target is not above \<open>pos\<close>. The instance of the claim (\<open>pos = motorPos = 100\<close>,
  \<open>backlashSteps = 50\<close>, target 80, pending \<open>- 70\<close>) is the witness.
\<close>

theorem moveTo_pending:
  "fst (moveTo lock target cont a) \<Longrightarrow>
   pendingPos (snd (moveTo lock target cont a)) =
     (if target = pos a then 0
      else target - motorPos a - (if target > pos a then 0 else backlashSteps a))"
  by (simp add: moveTo_def Let_def split: if_splits)

theorem moveTo_pending_witness:
  "fst (moveTo True 80 False (z_axis\<lparr>pos := 100, motorPos := 100\<rparr>)) \<and>
   pendingPos (snd (moveTo True 80 False (z_axis\<lparr>pos := 100, motorPos := 100\<rparr>))) = - 70"
  using moveTo_pending [of True 80 False "z_axis\<lparr>pos := 100, motorPos := 100\<rparr>"]
  by (simp add: axis_eval)

text \<open>
  What a rejection leaves behind, in general: \<^verbatim>\<open>continuous\<close> and \<^verbatim>\<open>pendingPos\<close> are
  assigned before the travel is checked.
\<close>

lemma moveTo_rejected:
  "\<bar>target - pos a\<bar> > estopSteps a \<Longrightarrow> target \<noteq> pos a \<Longrightarrow>
   moveTo True target cont a =
     (False, a\<lparr>continuous := cont,
               pendingPos := target - motorPos a - (if target > pos a then 0 else backlashSteps a)\<rparr>)"
  by (simp add: moveTo_def Let_def)

text \<open>
  Claim C2, evaluated on the code. With \<open>estopSteps = 10000\<close> and \<open>pos = 0\<close>,
  \<^verbatim>\<open>moveTo(15000, true)\<close> returns \<^verbatim>\<open>false\<close>, but \<^verbatim>\<open>continuous\<close> and \<^verbatim>\<open>pendingPos\<close> were
  assigned before the travel check: the object is left with \<open>continuous = True\<close> and
  \<open>pendingPos = 15000\<close>, and the next stepping tick emits a pulse towards the rejected
  target.
\<close>

theorem moveTo_estop_rejection_not_atomic:
  "estopSteps z_axis = 10000 \<and> pos z_axis = 0 \<and> stepPulses z_axis = 0 \<and>
   moveTo True 15000 True z_axis = (False, z_axis\<lparr>continuous := True, pendingPos := 15000\<rparr>) \<and>
   stepPulses (axis_update 2000 True True 510 (snd (moveTo True 15000 True z_axis))) = 1 \<and>
   pos (axis_update 2000 True True 510 (snd (moveTo True 15000 True z_axis))) = 1"
  by (simp add: axis_eval)

subsection \<open>Soft stops and the travel limit\<close>

lemma cdiv_self: "b \<noteq> 0 \<Longrightarrow> cdiv (a * b) b = a"
proof -
  assume b: "b \<noteq> 0"
  have "\<bar>a * b\<bar> div \<bar>b\<bar> = \<bar>a\<bar>"
    using b by (simp add: abs_mult)
  moreover have "sgn (a * b) * sgn b = sgn a"
    using b by (simp add: sgn_mult mult.assoc flip: abs_sgn)
  ultimately show ?thesis
    by (simp add: cdiv_def mult_sgn_abs)
qed

text \<open>
  What \<^verbatim>\<open>calculateAxisPosition\<close> computes when it does not trap: the factor
  \<^verbatim>\<open>getPositionSteps() / getPositionSteps()\<close> cancels, and nothing of the axis but its
  stops enters the result.
\<close>

lemma calculateAxisPosition_value:
  "pos a \<noteq> 0 \<Longrightarrow> ENCODER_STEPS_INT c \<noteq> 0 \<Longrightarrow>
   calculateAxisPosition c m a sp rs =
     Inr (let newPos = cdiv sp (ENCODER_STEPS_INT c) * currentPitch m * currentStarts m
          in if rs then (if newPos < rightStop a then rightStop a
                         else if newPos > leftStop a then leftStop a else newPos)
             else newPos)"
  by (simp add: calculateAxisPosition_def long_div_def getPositionSteps_def cdiv_self Let_def)

text \<open>
  Claim C5 fails on the code. With stops at \<open>- 1\<close> and \<open>1\<close> and the tool at \<open>0\<close>,
  \<^verbatim>\<open>moveTo(2)\<close> is accepted and two ticks later \<open>pos = 2\<close> is beyond the left stop. With
  \<open>estopSteps = 100\<close> and \<open>backlashSteps = 50\<close>, \<^verbatim>\<open>moveTo(-100)\<close> is accepted with a motor
  travel of 150 steps.
\<close>

theorem soft_limits_counterexample:
  "rightStop stops_axis \<le> pos stops_axis \<and> pos stops_axis \<le> leftStop stops_axis \<and>
   fst (moveTo True 2 False stops_axis) \<and>
   leftStop (axis_run [MoveTo True 2 False, Update 2000 True True 510,
                       Update 4000 True True 520] stops_axis)
     < pos (axis_run [MoveTo True 2 False, Update 2000 True True 510,
                      Update 4000 True True 520] stops_axis) \<and>
   fst (moveTo True (- 100) False stops_axis) \<and>
   estopSteps stops_axis < \<bar>pendingPos (snd (moveTo True (- 100) False stops_axis))\<bar>"
  by (simp add: stops_axis_def setLeftStop_def setRightStop_def axis_eval)

text \<open>
  The stops are members that only \<^verbatim>\<open>setLeftStop\<close>, \<^verbatim>\<open>setRightStop\<close> and \<^verbatim>\<open>setOrigin\<close>
  write; a target inside them keeps the outstanding motion inside them, and so does a pulse.
\<close>

lemma moveTo_stops:
  "leftStop (snd (moveTo lock newPos c a)) = leftStop a"
  "rightStop (snd (moveTo lock newPos c a)) = rightStop a"
  by (simp_all add: moveTo_def Let_def)

lemma axis_update_stops:
  "leftStop (axis_update now due lock ramp a) = leftStop a"
  "rightStop (axis_update now due lock ramp a) = rightStop a"
  by (simp_all add: axis_update_def Let_def setDirection_def)

lemma axis_step_stops:
  "leftStop (axis_step op a) = leftStop a" "rightStop (axis_step op a) = rightStop a"
  by (cases op; simp add: moveTo_stops axis_update_stops)+

lemma moveTo_stops_kept:
  assumes "stops_kept a" and "rightStop a \<le> newPos" and "newPos \<le> leftStop a"
  shows "stops_kept (snd (moveTo lock newPos c a))"
  using assms
  by (auto simp: stops_kept_def moveTo_def Let_def)

lemma axis_update_fields:
  "pendingPos a \<noteq> 0 \<Longrightarrow>
   pendingPos (axis_update now True True ramp a) = pendingPos a - (if pendingPos a > 0 then 1 else - 1) \<and>
   motorPos (axis_update now True True ramp a) = motorPos a + (if pendingPos a > 0 then 1 else - 1) \<and>
   pos (axis_update now True True ramp a) =
     (if pendingPos a > 0 \<and> motorPos a \<ge> pos a then pos a + 1
      else if \<not> pendingPos a > 0 \<and> motorPos a \<le> pos a - backlashSteps a then pos a - 1
      else pos a)"
  by (simp add: axis_update_def Let_def setDirection_frame)

lemma axis_update_idle:
  "pendingPos a = 0 \<or> \<not> (due \<and> lock) \<Longrightarrow>
   pendingPos (axis_update now due lock ramp a) = pendingPos a \<and>
   motorPos (axis_update now due lock ramp a) = motorPos a \<and>
   pos (axis_update now due lock ramp a) = pos a"
  by (auto simp: axis_update_def)

lemma axis_update_stops_kept:
  assumes "stops_kept a"
  shows "stops_kept (axis_update now due lock ramp a)"
proof (cases "pendingPos a = 0 \<or> \<not> (due \<and> lock)")
  case True
  from axis_update_idle [OF True] assms show ?thesis
    by (simp add: stops_kept_def axis_update_stops axis_update_backlashSteps)
next
  case False
  then have p: "pendingPos a \<noteq> 0" and dl: "due" "lock" by auto
  from axis_update_fields [OF p, of now ramp] assms dl p show ?thesis
    unfolding stops_kept_def axis_update_stops axis_update_backlashSteps
    by (auto split: if_splits)
qed

lemma axis_step_stops_kept:
  "stops_kept a \<Longrightarrow> within_stops a op \<Longrightarrow> stops_kept (axis_step op a)"
  by (cases op) (simp_all add: moveTo_stops_kept axis_update_stops_kept)

lemma axis_run_stops_kept:
  "stops_kept a \<Longrightarrow> list_all (within_stops a) ops \<Longrightarrow>
   stops_kept (axis_run (take n ops) a) \<and>
   leftStop (axis_run (take n ops) a) = leftStop a \<and>
   rightStop (axis_run (take n ops) a) = rightStop a"
proof (induction ops arbitrary: a n)
  case Nil
  then show ?case by simp
next
  case (Cons op ops)
  show ?case
  proof (cases n)
    case 0
    with Cons.prems show ?thesis by simp
  next
    case (Suc k)
    from Cons.prems have s: "stops_kept (axis_step op a)"
      by (simp add: axis_step_stops_kept)
    have w: "within_stops (axis_step op a) = within_stops a"
    proof
      fix o' show "within_stops (axis_step op a) o' = within_stops a o'"
        by (cases o') (simp_all add: axis_step_stops)
    qed
    from Cons.prems have "list_all (within_stops (axis_step op a)) ops"
      by (simp add: w)
    from Cons.IH [OF s this, of k] Suc show ?thesis
      by (simp add: axis_step_stops)
  qed
qed

lemma setOrigin_stops_kept:
  "stops_kept a \<Longrightarrow> leftStop a \<noteq> LONG_MAX \<Longrightarrow> rightStop a \<noteq> LONG_MIN \<Longrightarrow>
   stops_kept (setOrigin lock a)"
  by (simp add: stops_kept_def setOrigin_def Let_def)

text \<open>
  Claim C5 as amended. The axis does not look at its stops, so the tool stays between them
  as far as the targets do: from a state where the tool and the outstanding motion are
  between the stops (\<open>stops_kept\<close>, with \<open>backlashSteps \<ge> 0\<close>), after every prefix of
  every run of stepping ticks and \<^verbatim>\<open>moveTo\<close> commands whose targets lie between the
  stops, \<open>rightStop \<le> pos \<le> leftStop\<close> holds, and \<^verbatim>\<open>setOrigin\<close> with both stops set
  keeps it. The coordinator computes such targets: with \<open>rightStop \<le> leftStop\<close>, every
  result of \<^verbatim>\<open>calculateAxisPosition\<close> with \<^verbatim>\<open>respectStops\<close> lies between the stops.
  \<^verbatim>\<open>moveTo\<close> accepts a target exactly when the mutex is taken and the target is \<open>pos\<close> or
  the tool travel \<open>\<bar>target - pos\<bar>\<close> is at most \<open>estopSteps\<close>; the motor travel of an
  accepted target may exceed the tool travel, by at most twice the backlash.
\<close>

theorem soft_limits_amended:
  "(stops_kept a \<longrightarrow> list_all (within_stops a) ops \<longrightarrow>
      rightStop a \<le> pos (axis_run (take n ops) a) \<and>
      pos (axis_run (take n ops) a) \<le> leftStop a \<and>
      stops_kept (axis_run (take n ops) a)) \<and>
   (stops_kept a \<longrightarrow> leftStop a \<noteq> LONG_MAX \<longrightarrow> rightStop a \<noteq> LONG_MIN \<longrightarrow>
      stops_kept (setOrigin lk a)) \<and>
   (rightStop a \<le> leftStop a \<longrightarrow> calculateAxisPosition c m a sp True = Inr target \<longrightarrow>
      rightStop a \<le> target \<and> target \<le> leftStop a) \<and>
   (fst (moveTo lock tgt cont a) = (lock \<and> (tgt = pos a \<or> \<bar>tgt - pos a\<bar> \<le> estopSteps a))) \<and>
   (backlash_bound a \<longrightarrow> fst (moveTo lock tgt cont a) \<longrightarrow>
      \<bar>pendingPos (snd (moveTo lock tgt cont a))\<bar> \<le> \<bar>tgt - pos a\<bar> + 2 * backlashSteps a)"
proof (intro conjI impI)
  assume k: "stops_kept a" and w: "list_all (within_stops a) ops"
  from axis_run_stops_kept [OF k w, of n]
  have r: "stops_kept (axis_run (take n ops) a)"
    and l: "leftStop (axis_run (take n ops) a) = leftStop a"
      "rightStop (axis_run (take n ops) a) = rightStop a"
    by simp_all
  from r show "stops_kept (axis_run (take n ops) a)" .
  from r l show "rightStop a \<le> pos (axis_run (take n ops) a)"
    and "pos (axis_run (take n ops) a) \<le> leftStop a"
    by (auto simp: stops_kept_def)
next
  assume "stops_kept a" and "leftStop a \<noteq> LONG_MAX" and "rightStop a \<noteq> LONG_MIN"
  then show "stops_kept (setOrigin lk a)"
    by (rule setOrigin_stops_kept)
next
  assume "rightStop a \<le> leftStop a" and "calculateAxisPosition c m a sp True = Inr target"
  then show "rightStop a \<le> target" "target \<le> leftStop a"
    by (auto simp: calculateAxisPosition_def Let_def split: sum.splits if_splits)
next
  show "fst (moveTo lock tgt cont a) = (lock \<and> (tgt = pos a \<or> \<bar>tgt - pos a\<bar> \<le> estopSteps a))"
    by (auto simp: moveTo_def Let_def)
next
  assume "backlash_bound a" and "fst (moveTo lock tgt cont a)"
  then show "\<bar>pendingPos (snd (moveTo lock tgt cont a))\<bar> \<le> \<bar>tgt - pos a\<bar> + 2 * backlashSteps a"
    by (auto simp: moveTo_def Let_def backlash_bound_def split: if_splits)
qed

subsection \<open>The encoder's backlash compensation\<close>

lemma processPulses_position:
  "position (processPulses c now d e) = position e + d"
  by (simp add: processPulses_def Let_def)

lemma processPulses_positionAvg:
  "positionAvg (processPulses c now d e) =
     (if position e + d > positionAvg e then position e + d
      else if position e + d < positionAvg e - ENCODER_BACKLASH c
        then position e + d + ENCODER_BACKLASH c
      else positionAvg e)"
  by (simp add: processPulses_def Let_def)

lemma processPulses_window:
  "enc_window c e \<Longrightarrow> enc_window c (processPulses c now d e)"
  by (auto simp: enc_window_def processPulses_position processPulses_positionAvg)

lemma feed_window:
  "enc_window c e \<Longrightarrow> enc_window c (feed c ds e)"
  by (induction ds arbitrary: e) (auto simp: processPulses_window)

lemma processPulses_sign:
  assumes "enc_window c e"
  shows "sgn (positionAvg (processPulses c now d e) - positionAvg e) =
           sgn (position (processPulses c now d e) - position e) \<or>
         positionAvg (processPulses c now d e) = positionAvg e"
  using assms
  by (auto simp: enc_window_def processPulses_position processPulses_positionAvg sgn_if)

text \<open>
  Claim C8 fails on the code. With \<open>ENCODER_BACKLASH = 5\<close> and the deltas \<open>10, - 3, 2\<close>,
  the last delta moves the raw position forward, from 7 to 9, and \<open>positionAvg\<close> stays
  at 10: it does not equal \<open>position\<close> while moving forward, and it is ahead of it.
\<close>

theorem encoder_backlash_counterexample:
  "position (feed test_config [(1000, 10), (2000, - 3), (3000, 2)] (SpindleEncoder 0)) -
     position (feed test_config [(1000, 10), (2000, - 3)] (SpindleEncoder 0)) = 2 \<and>
   position (feed test_config [(1000, 10), (2000, - 3), (3000, 2)] (SpindleEncoder 0)) = 9 \<and>
   positionAvg (feed test_config [(1000, 10), (2000, - 3), (3000, 2)] (SpindleEncoder 0)) = 10"
  by (simp add: processPulses_position processPulses_positionAvg test_config_def SpindleEncoder_def)

text \<open>
  Claim C8 as amended. From a state inside the window
  \<open>position \<le> positionAvg \<le> position + ENCODER_BACKLASH\<close> (the constructed and the reset
  state are, when \<open>ENCODER_BACKLASH \<ge> 0\<close>), after every sequence of deltas and one more
  delta: the state is inside the window again, so \<open>positionAvg\<close> is never below
  \<open>position\<close> and never more than \<open>ENCODER_BACKLASH\<close> above it; the change of
  \<open>positionAvg\<close> has the sign of the change of \<open>position\<close> or is zero; and \<open>positionAvg\<close>
  equals \<open>position\<close> whenever the new raw position has reached the old average.
\<close>

theorem encoder_backlash_amended:
  assumes "enc_window c e0"
  shows "enc_window c (processPulses c now d (feed c ds e0)) \<and>
         (sgn (positionAvg (processPulses c now d (feed c ds e0)) - positionAvg (feed c ds e0)) =
            sgn (position (processPulses c now d (feed c ds e0)) - position (feed c ds e0)) \<or>
          positionAvg (processPulses c now d (feed c ds e0)) = positionAvg (feed c ds e0)) \<and>
         (positionAvg (feed c ds e0) \<le> position (processPulses c now d (feed c ds e0)) \<longrightarrow>
            positionAvg (processPulses c now d (feed c ds e0)) =
              position (processPulses c now d (feed c ds e0)))"
proof -
  have w: "enc_window c (feed c ds e0)"
    using assms by (rule feed_window)
  show ?thesis
    using processPulses_window [OF w, of now d] processPulses_sign [OF w, of now d] w
    by (auto simp: enc_window_def processPulses_position processPulses_positionAvg)
qed

theorem encoder_backlash_amended_witness:
  "enc_window test_config (SpindleEncoder 0) \<and>
   enc_window test_config
     (processPulses test_config 4000 (- 4)
        (feed test_config [(1000, 10), (2000, - 3), (3000, 2)] (SpindleEncoder 0))) \<and>
   positionAvg
     (processPulses test_config 4000 (- 4)
        (feed test_config [(1000, 10), (2000, - 3), (3000, 2)] (SpindleEncoder 0))) = 10"
proof -
  have h: "enc_window test_config (SpindleEncoder 0)"
    by (simp add: enc_window_def SpindleEncoder_def test_config_def)
  have "positionAvg
          (processPulses test_config 4000 (- 4)
             (feed test_config [(1000, 10), (2000, - 3), (3000, 2)] (SpindleEncoder 0))) = 10"
    by (simp add: processPulses_position processPulses_positionAvg test_config_def
        SpindleEncoder_def)
  with encoder_backlash_amended [OF h, of 4000 "- 4" "[(1000, 10), (2000, - 3), (3000, 2)]"] h
  show ?thesis by blast
qed

subsection \<open>The coordinator: what its commands do to each component\<close>

lemma setOrigin_pos: "pos (setOrigin True a) = 0"
  by (simp add: setOrigin_def Let_def)

lemma setOrigin_frame:
  "pendingPos (setOrigin True a) = 0"
  "stepStartUs (setOrigin lk a) = stepStartUs a"
  "stepperEnableCounter (setOrigin lk a) = stepperEnableCounter a"
  "enaPin (setOrigin lk a) = enaPin a"
  "config (setOrigin lk a) = config a"
  "disabled (setOrigin lk a) = disabled a"
  by (simp_all add: setOrigin_def Let_def)

lemma axis_setEnabled_frame:
  "stepStartUs (axis_setEnabled en a) = stepStartUs a"
  "config (axis_setEnabled en a) = config a"
  "disabled (axis_setEnabled en a) = disabled a"
  "pos (axis_setEnabled en a) = pos a"
  by (simp_all add: axis_setEnabled_def updateEnablePin_def Let_def)

lemma setNewOrigin_zAxis: "zAxis (setNewOrigin L m) = setOrigin (zLock L) (zAxis m)"
  by (simp add: setNewOrigin_def Let_def)

lemma setNewOrigin_xAxis: "xAxis (setNewOrigin L m) = setOrigin (xLock L) (xAxis m)"
  by (simp add: setNewOrigin_def Let_def)

lemma setNewOrigin_a1Axis:
  "a1Axis (setNewOrigin L m) =
     (if isActive (a1Axis m) then setOrigin (a1Lock L) (a1Axis m) else a1Axis m)"
  by (simp add: setNewOrigin_def Let_def)

lemma setNewOrigin_spindle: "spindle (setNewOrigin L m) = resetPosition (spindle m)"
  by (simp add: setNewOrigin_def Let_def)

lemma setNewOrigin_frame:
  "currentMode (setNewOrigin L m) = currentMode m"
  "currentPitch (setNewOrigin L m) = currentPitch m"
  "currentStarts (setNewOrigin L m) = currentStarts m"
  "systemEnabled (setNewOrigin L m) = systemEnabled m"
  by (simp_all add: setNewOrigin_def Let_def)

lemma enable_zAxis:
  "\<not> systemEnabled m \<Longrightarrow>
   zAxis (motion_setEnabled L True m) = setOrigin (zLock L) (axis_setEnabled True (zAxis m))"
  by (simp add: motion_setEnabled_def Let_def setNewOrigin_zAxis)

lemma enable_xAxis:
  "\<not> systemEnabled m \<Longrightarrow>
   xAxis (motion_setEnabled L True m) = setOrigin (xLock L) (axis_setEnabled True (xAxis m))"
  by (simp add: motion_setEnabled_def Let_def setNewOrigin_xAxis)

lemma enable_a1Axis:
  "\<not> systemEnabled m \<Longrightarrow>
   a1Axis (motion_setEnabled L True m) =
     (if isActive (a1Axis m) then setOrigin (a1Lock L) (axis_setEnabled True (a1Axis m))
      else a1Axis m)"
  by (simp add: motion_setEnabled_def Let_def setNewOrigin_a1Axis isActive_def axis_setEnabled_frame)

lemma enable_frame:
  "\<not> systemEnabled m \<Longrightarrow> systemEnabled (motion_setEnabled L True m)"
  "currentMode (motion_setEnabled L en m) = currentMode m"
  "currentPitch (motion_setEnabled L en m) = currentPitch m"
  "currentStarts (motion_setEnabled L en m) = currentStarts m"
  "\<not> systemEnabled m \<Longrightarrow> spindle (motion_setEnabled L True m) = resetPosition (spindle m)"
  by (simp_all add: motion_setEnabled_def Let_def setNewOrigin_frame setNewOrigin_spindle)

lemma disable_frame:
  "\<not> systemEnabled (motion_setEnabled L False m)"
  "zAxis (motion_setEnabled L False m) = zAxis m"
  "xAxis (motion_setEnabled L False m) = xAxis m"
  "a1Axis (motion_setEnabled L False m) = a1Axis m"
  "spindle (motion_setEnabled L False m) = spindle m"
  by (simp_all add: motion_setEnabled_def)

lemma encoder_update_syncOffset: "syncOffset (encoder_update c now cnt e) = syncOffset e"
  by (simp add: encoder_update_def processPulses_def Let_def)

lemma setPitch_ok:
  "- DUPR_MAX c \<le> p \<Longrightarrow> p \<le> DUPR_MAX c \<Longrightarrow> setPitch c L p m = setNewOrigin L (m\<lparr>currentPitch := p\<rparr>)"
  by (simp add: setPitch_def)

subsection \<open>The concrete lathe, evaluated\<close>

lemmas motion_eval = lathe_def x_config_def a1_config_def all_locks_def tick_at_def
  MotionController_def SpindleEncoder_def test_config_def setPitch_def setStarts_def
  setOperationMode_def setNewOrigin_def setOrigin_def resetPosition_def isActive_def
  motion_setEnabled_def axis_setEnabled_def updateEnablePin_def elapsed_us_def

lemma all_locks_sel: "zLock all_locks" "xLock all_locks" "a1Lock all_locks"
  by (simp_all add: all_locks_def)

lemma tick_at_sel:
  "motionLock (tick_at now cnt)" "nowUs (tick_at now cnt) = now" "pcnt (tick_at now cnt) = cnt"
  "modeLocks (tick_at now cnt) = all_locks"
  "zTick (tick_at now cnt) = \<lparr> stepDue = True, stepLock = True, stepRamp = 510 \<rparr>"
  "xTick (tick_at now cnt) = \<lparr> stepDue = True, stepLock = True, stepRamp = 510 \<rparr>"
  "a1Tick (tick_at now cnt) = \<lparr> stepDue = True, stepLock = True, stepRamp = 510 \<rparr>"
  by (simp_all add: tick_at_def)

lemma lathe_sel:
  "\<not> systemEnabled lathe" "zAxis lathe = z_axis" "xAxis lathe = AxisController x_config 10000 20"
  "a1Axis lathe = AxisController a1_config 10000 0"
  by (simp_all add: lathe_def MotionController_def)

lemma axes_sel:
  "stepperEnableCounter (AxisController cfg e b) = 0" "config (AxisController cfg e b) = cfg"
  "\<not> disabled (AxisController cfg e b)" "\<not> enaPin (AxisController cfg e b)"
  by (simp_all add: AxisController_def)

lemma z_axis_sel:
  "pos z_axis = 0" "motorPos z_axis = 0" "pendingPos z_axis = 0" "stepStartUs z_axis = 0"
  "leftStop z_axis = LONG_MAX" "rightStop z_axis = LONG_MIN" "backlashSteps z_axis = 50"
  "estopSteps z_axis = 10000"
  by (simp_all add: z_axis_def AxisController_def)

lemma pitched: "setPitch test_config all_locks 1000 lathe = setNewOrigin all_locks (lathe\<lparr>currentPitch := 1000\<rparr>)"
  by (rule setPitch_ok) (simp_all add: test_config_def)

lemma pitched_fields:
  "\<not> systemEnabled (setPitch test_config all_locks 1000 lathe)"
  "currentPitch (setPitch test_config all_locks 1000 lathe) = 1000"
  "currentStarts (setPitch test_config all_locks 1000 lathe) = 1"
  "currentMode (setPitch test_config all_locks 1000 lathe) = 0"
  "zAxis (setPitch test_config all_locks 1000 lathe) = setOrigin True z_axis"
  "spindle (setPitch test_config all_locks 1000 lathe) = SpindleEncoder 0"
  unfolding pitched
  by (simp_all add: setNewOrigin_frame setNewOrigin_zAxis setNewOrigin_spindle)
    (simp_all add: lathe_def MotionController_def all_locks_sel resetPosition_def
      SpindleEncoder_def)

lemma setOrigin_z_axis: "setOrigin True z_axis = z_axis"
  by (simp add: setOrigin_def axis_eval)

lemma following_z: "zAxis following = z_axis\<lparr>stepperEnableCounter := 1, enaPin := True\<rparr>"
  unfolding following_def
  apply (simp add: enable_zAxis pitched_fields all_locks_sel setOrigin_z_axis)
  apply (simp add: axis_setEnabled_def updateEnablePin_def setOrigin_def z_axis_def z_config_def AxisController_def LONG_MAX_def LONG_MIN_def)
  done

lemma following_sel:
  "systemEnabled following" "currentPitch following = 1000" "currentStarts following = 1"
  "currentMode following = 0" "spindle following = SpindleEncoder 0"
  unfolding following_def
  by (simp_all add: enable_frame pitched_fields)
    (simp add: resetPosition_def SpindleEncoder_def)

lemma jogged_sel:
  "currentPitch (jogged avg) = 1000" "currentStarts (jogged avg) = 1"
  "zAxis (jogged avg) = z_axis\<lparr>stepperEnableCounter := 1, enaPin := True, pos := 5, motorPos := 5\<rparr>"
  "getAveragePosition (spindle (jogged avg)) = avg"
  by (simp_all add: jogged_def following_sel following_z getAveragePosition_def)

lemma cutting_sel:
  "pos (zAxis cutting) = 5" "motorPos (zAxis cutting) = 5" "originPos (zAxis cutting) = 0"
  "leftStop (zAxis cutting) = 1000" "rightStop (zAxis cutting) = - 1000"
  "backlashSteps (zAxis cutting) = 50" "estopSteps (zAxis cutting) = 10000"
  "position (spindle cutting) = 9600" "currentPitch cutting = 1000" "currentStarts cutting = 1"
  by (simp_all add: cutting_def jogged_sel setLeftStop_def setRightStop_def z_axis_def
      AxisController_def)
    (simp add: jogged_def)

lemma busy_z: "zAxis busy = z_axis\<lparr>stepperEnableCounter := 1, enaPin := True, pendingPos := 5\<rparr>"
  by (simp add: busy_def following_z moveTo_def Let_def z_axis_sel)
    (simp add: z_axis_def AxisController_def)

lemma busy_z_sel: "pendingPos (zAxis busy) = 5" "motorPos (zAxis busy) = 0"
  by (simp_all add: busy_z z_axis_sel)

lemma cutting_z: 
  "zAxis cutting = z_axis\<lparr>stepperEnableCounter := 1, enaPin := True, pos := 5, motorPos := 5,
                           leftStop := 1000, rightStop := - 1000\<rparr>"
  by (simp add: cutting_def jogged_sel setLeftStop_def setRightStop_def)

lemma cutting_pending: "pendingPos (zAxis cutting) = 0"
  by (simp add: cutting_z z_axis_sel)


text \<open>
  The witness of claim C5 as amended: the lathe of the spec's soft-limit scenario, with
  stops at \<open>- 1000\<close> and \<open>1000\<close>, after four revolutions of the spindle.
\<close>

theorem soft_limits_amended_witness:
  "stops_kept (zAxis cutting) \<and>
   list_all (within_stops (zAxis cutting))
     [MoveTo True 1000 True, Update 2000 True True 510, Update 4000 True True 520] \<and>
   pos (axis_run (take 3 [MoveTo True 1000 True, Update 2000 True True 510,
                          Update 4000 True True 520]) (zAxis cutting)) = 7 \<and>
   rightStop (zAxis cutting) \<le> leftStop (zAxis cutting) \<and>
   calculateAxisPosition test_config cutting (zAxis cutting) 9600 True = Inr 1000 \<and>
   backlash_bound (zAxis cutting) \<and>
   fst (moveTo True 1000 True (zAxis cutting)) \<and>
   \<bar>pendingPos (snd (moveTo True 1000 True (zAxis cutting)))\<bar> \<le> 1095"
proof -
  let ?ops = "[MoveTo True 1000 True, Update 2000 True True 510, Update 4000 True True 520]"
  have k: "stops_kept (zAxis cutting)"
    by (simp add: stops_kept_def cutting_sel cutting_pending)
  have w: "list_all (within_stops (zAxis cutting)) ?ops"
    by (simp add: cutting_sel)
  have p: "pos (axis_run (take 3 ?ops) (zAxis cutting)) = 7"
    by (simp add: cutting_z axis_eval)
  have c: "calculateAxisPosition test_config cutting (zAxis cutting) 9600 True = Inr 1000"
    by (subst calculateAxisPosition_value)
      (simp_all add: cutting_sel test_config_def cdiv_def)
  have b: "backlash_bound (zAxis cutting)"
    by (simp add: backlash_bound_def cutting_sel)
  from soft_limits_amended [where a = "zAxis cutting" and ops = ?ops and n = 3
      and c = test_config and m = cutting and sp = 9600 and target = 1000 and lock = True
      and tgt = 1000 and cont = True] k w p c b
  show ?thesis
    by (simp add: cutting_sel)
qed

subsection \<open>Normal mode: the target computation\<close>

lemma calculate_at_zero:
  "getPositionSteps a = 0 \<Longrightarrow> calculateAxisPosition c m a sp rs = Inl IntegerDivideByZero"
  "getPositionSteps a = 0 \<Longrightarrow> calculateSpindlePosition c m a ap = Inl IntegerDivideByZero"
  by (simp_all add: calculateAxisPosition_def calculateSpindlePosition_def long_div_def)

text \<open>
  Claim C3. \<^verbatim>\<open>calculateAxisPosition\<close> and \<^verbatim>\<open>calculateSpindlePosition\<close> divide by
  \<^verbatim>\<open>getPositionSteps()\<close>, which is 0 in the constructed axis, after every \<^verbatim>\<open>setOrigin\<close>
  that takes its mutex and hence after \<^verbatim>\<open>setNewOrigin\<close>; both trap there. The state is
  reachable through the public interface: whenever a switched-off coordinator in Normal
  mode with a non-zero pitch is switched on (the Z mutex being free), the first tick that
  takes the coordinator mutex at least 50 ms after the last Z pulse traps in the target
  computation.
\<close>

theorem normal_mode_divides_by_zero:
  assumes "\<not> systemEnabled m" and "currentMode m = MODE_NORMAL c" and "currentPitch m \<noteq> 0"
    and "zLock L" and "motionLock t"
    and "50000 \<le> elapsed_us (nowUs t) (stepStartUs (zAxis m))"
  shows "getPositionSteps (AxisController cfg estop backlash) = 0 \<and>
         getPositionSteps (setOrigin True a) = 0 \<and>
         getPositionSteps (zAxis (setNewOrigin L m)) = 0 \<and>
         calculateAxisPosition c m (setOrigin True a) sp rs = Inl IntegerDivideByZero \<and>
         calculateSpindlePosition c m (setOrigin True a) ap = Inl IntegerDivideByZero \<and>
         getPositionSteps (zAxis (motion_setEnabled L True m)) = 0 \<and>
         motion_update c t (motion_setEnabled L True m) = Inl IntegerDivideByZero"
proof -
  let ?m = "motion_setEnabled L True m"
  have z: "zAxis ?m = setOrigin True (axis_setEnabled True (zAxis m))"
    using assms by (simp add: enable_zAxis)
  have p: "getPositionSteps (zAxis ?m) = 0"
    by (simp add: z getPositionSteps_def setOrigin_pos)
  have still: "\<not> isMoving (nowUs t) (zAxis ?m)"
    using assms by (simp add: z isMoving_def setOrigin_frame axis_setEnabled_frame)
  have sync: "getSyncOffset (spindle ?m) = 0"
    using assms by (simp add: getSyncOffset_def enable_frame resetPosition_def)
  have n: "updateNormalMode c t (?m\<lparr>spindle := e\<rparr>) = Inl IntegerDivideByZero" for e
    using still p by (simp add: updateNormalMode_def calculate_at_zero)
  have "motion_update c t ?m = Inl IntegerDivideByZero"
    using assms sync
    by (simp add: motion_update_def Let_def enable_frame updateMode_def n
        getSyncOffset_def encoder_update_syncOffset)
  then show ?thesis
    using p assms by (simp add: calculate_at_zero getPositionSteps_def setOrigin_pos
        AxisController_def setNewOrigin_zAxis)
qed

theorem normal_mode_divides_by_zero_witness:
  "\<not> systemEnabled (setPitch test_config all_locks 1000 (setOperationMode all_locks 0 lathe)) \<and>
   currentPitch (setPitch test_config all_locks 1000 (setOperationMode all_locks 0 lathe)) = 1000 \<and>
   motion_update test_config (tick_at 100000 600)
     (motion_setEnabled all_locks True
        (setPitch test_config all_locks 1000 (setOperationMode all_locks 0 lathe))) =
     Inl IntegerDivideByZero"
proof -
  let ?m = "setPitch test_config all_locks 1000 (setOperationMode all_locks 0 lathe)"
  have h: "\<not> systemEnabled ?m" "currentMode ?m = MODE_NORMAL test_config" "currentPitch ?m \<noteq> 0"
    "zLock all_locks" "motionLock (tick_at 100000 600)"
    "50000 \<le> elapsed_us (nowUs (tick_at 100000 600)) (stepStartUs (zAxis ?m))"
    by (simp_all add: motion_eval axis_eval)
  have "currentPitch ?m = 1000"
    by (simp add: motion_eval axis_eval)
  with normal_mode_divides_by_zero [OF h] h(1) show ?thesis by blast
qed

text \<open>
  Claim C1, evaluated on the code. The target computed by \<^verbatim>\<open>updateNormalMode\<close> is
  \<^verbatim>\<open>spindlePos * pos / pos / ENCODER_STEPS_INT * currentPitch * currentStarts\<close>: where the
  claim has the lead of the Z axis (steps per deci-micron) the code has
  \<^verbatim>\<open>getPositionSteps() / getPositionSteps()\<close>. Right after the coordinator is switched on,
  \<open>pos = 0\<close> and the tick traps. With the tool at \<open>pos = 5\<close>, 2400 counts per revolution,
  a pitch of 1000 du and one start, a quarter of a revolution (600 counts) gives the
  target 0 and a full revolution (2400 counts) gives 1000 steps, whatever the lead of the
  axis is; the command issued is \<^verbatim>\<open>moveTo(1000, true)\<close>, with 995 steps pending.
\<close>

theorem normal_mode_target_evaluated:
  "getPositionSteps (zAxis following) = 0 \<and>
   updateNormalMode test_config (tick_at 100000 0) following = Inl IntegerDivideByZero \<and>
   getPositionSteps (zAxis (jogged 2400)) = 5 \<and>
   calculateAxisPosition test_config (jogged 600) (zAxis (jogged 600)) 600 True = Inr 0 \<and>
   calculateAxisPosition test_config (jogged 2400) (zAxis (jogged 2400)) 2400 True = Inr 1000 \<and>
   (case updateNormalMode test_config (tick_at 100000 0) (jogged 2400) of
      Inl e \<Rightarrow> None
    | Inr m' \<Rightarrow> Some (continuous (zAxis m'), pendingPos (zAxis m'))) = Some (True, 995)"
proof -
  have p0: "getPositionSteps (zAxis following) = 0"
    by (simp add: getPositionSteps_def following_z z_axis_sel)
  have still: "\<not> isMoving 100000 (zAxis following)"
    by (simp add: isMoving_def following_z z_axis_sel elapsed_us_def)
  have trap: "updateNormalMode test_config (tick_at 100000 0) following = Inl IntegerDivideByZero"
    using still by (simp add: updateNormalMode_def tick_at_sel calculate_at_zero p0)
  have c600: "calculateAxisPosition test_config (jogged 600) (zAxis (jogged 600)) 600 True = Inr 0"
    by (subst calculateAxisPosition_value)
      (simp_all add: jogged_sel z_axis_sel test_config_def cdiv_def LONG_MAX_def LONG_MIN_def)
  have c2400:
    "calculateAxisPosition test_config (jogged 2400) (zAxis (jogged 2400)) 2400 True = Inr 1000"
    by (subst calculateAxisPosition_value)
      (simp_all add: jogged_sel z_axis_sel test_config_def cdiv_def LONG_MAX_def LONG_MIN_def)
  have still5: "\<not> isMoving 100000 (zAxis (jogged 2400))"
    by (simp add: isMoving_def jogged_sel z_axis_sel elapsed_us_def)
  have "(case updateNormalMode test_config (tick_at 100000 0) (jogged 2400) of
           Inl e \<Rightarrow> None
         | Inr m' \<Rightarrow> Some (continuous (zAxis m'), pendingPos (zAxis m'))) = Some (True, 995)"
    using still5
    by (simp add: updateNormalMode_def tick_at_sel jogged_sel(4) c2400 all_locks_sel)
      (simp add: jogged_sel getPositionSteps_def z_axis_sel moveTo_def Let_def)
  with p0 trap c600 c2400 show ?thesis
    by (simp add: getPositionSteps_def jogged_sel z_axis_sel)
qed

subsection \<open>Switching the coordinator off\<close>

lemma winds_down_refl: "winds_down a a"
  by (simp add: winds_down_def)

lemma winds_down_trans: "winds_down a b \<Longrightarrow> winds_down b c \<Longrightarrow> winds_down a c"
  by (simp add: winds_down_def)

lemma axis_update_winds_down: "winds_down a (axis_update now due lk rmp a)"
  by (simp add: winds_down_def axis_update_def Let_def setDirection_frame)

lemma disabled_tick:
  assumes "\<not> systemEnabled m"
  shows "\<exists>m'. motion_update c t m = Inr m' \<and> \<not> systemEnabled m' \<and>
           winds_down (zAxis m) (zAxis m') \<and> winds_down (xAxis m) (xAxis m') \<and>
           winds_down (a1Axis m) (a1Axis m')"
  using assms
  by (simp add: motion_update_def Let_def axis_update_winds_down winds_down_refl)

lemma disabled_ticks:
  assumes "\<not> systemEnabled m"
  shows "\<exists>m'. motion_ticks c ts m = Inr m' \<and> \<not> systemEnabled m' \<and>
           winds_down (zAxis m) (zAxis m') \<and> winds_down (xAxis m) (xAxis m') \<and>
           winds_down (a1Axis m) (a1Axis m')"
  using assms
proof (induction ts arbitrary: m)
  case Nil
  then show ?case by (simp add: winds_down_refl)
next
  case (Cons t ts)
  from disabled_tick [OF Cons.prems] obtain m1 where
    m1: "motion_update c t m = Inr m1" "\<not> systemEnabled m1"
      "winds_down (zAxis m) (zAxis m1)" "winds_down (xAxis m) (xAxis m1)"
      "winds_down (a1Axis m) (a1Axis m1)"
    by blast
  from Cons.IH [OF m1(2)] obtain m2 where
    m2: "motion_ticks c ts m1 = Inr m2" "\<not> systemEnabled m2"
      "winds_down (zAxis m1) (zAxis m2)" "winds_down (xAxis m1) (xAxis m2)"
      "winds_down (a1Axis m1) (a1Axis m2)"
    by blast
  show ?case
    using m1 m2 by (auto intro: winds_down_trans)
qed

lemma disabled_tick_zAxis:
  "\<not> systemEnabled m \<Longrightarrow> motionLock t \<Longrightarrow>
   (case motion_update c t m of Inl e \<Rightarrow> None | Inr m' \<Rightarrow> Some (f (zAxis m'))) =
     Some (f (axis_update (nowUs t) (stepDue (zTick t)) (stepLock (zTick t)) (stepRamp (zTick t)) (zAxis m)))"
  by (simp add: motion_update_def Let_def)

lemma z_step:
  "pendingPos a > 0 \<Longrightarrow>
   pendingPos (axis_update now True True rmp a) = pendingPos a - 1 \<and>
   motorPos (axis_update now True True rmp a) = motorPos a + 1"
  by (simp add: axis_update_def Let_def setDirection_frame)

text \<open>
  Claim C6 fails on the code. With 5 steps pending on Z, \<^verbatim>\<open>setEnabled(false)\<close> leaves
  them pending, and after the next tick 4 are still pending: nothing clears
  \<^verbatim>\<open>pendingPos\<close>.
\<close>

theorem disable_keeps_pending_counterexample:
  "pendingPos (zAxis (motion_setEnabled all_locks False busy)) = 5 \<and>
   (case motion_update test_config (tick_at 2000 0) (motion_setEnabled all_locks False busy) of
      Inl e \<Rightarrow> None
    | Inr m' \<Rightarrow> Some (pendingPos (zAxis m'))) = Some 4"
  by (simp add: disabled_tick_zAxis disable_frame tick_at_sel z_step busy_z_sel)

text \<open>
  Claim C6 as amended. After \<^verbatim>\<open>setEnabled(false)\<close> no tick traps, the coordinator stays
  switched off, and at every later tick boundary every axis is still heading for the
  motor position it was heading for, with the same \<^verbatim>\<open>continuous\<close> flag and no more steps
  pending than before: the ticks issue no target, they only let the axes finish.
\<close>

theorem disabled_axes_wind_down:
  "case motion_ticks c ts (motion_setEnabled L False m) of
     Inl e \<Rightarrow> False
   | Inr m' \<Rightarrow> \<not> systemEnabled m' \<and>
       winds_down (zAxis m) (zAxis m') \<and> winds_down (xAxis m) (xAxis m') \<and>
       winds_down (a1Axis m) (a1Axis m')"
proof -
  from disabled_ticks [OF disable_frame(1)] obtain m' where
    "motion_ticks c ts (motion_setEnabled L False m) = Inr m'" "\<not> systemEnabled m'"
    "winds_down (zAxis (motion_setEnabled L False m)) (zAxis m')"
    "winds_down (xAxis (motion_setEnabled L False m)) (xAxis m')"
    "winds_down (a1Axis (motion_setEnabled L False m)) (a1Axis m')"
    by blast
  then show ?thesis by (simp add: disable_frame)
qed

theorem disabled_axes_wind_down_witness:
  "(case motion_ticks test_config [tick_at 2000 0] (motion_setEnabled all_locks False busy) of
      Inl e \<Rightarrow> False
    | Inr m' \<Rightarrow> \<not> systemEnabled m' \<and> winds_down (zAxis busy) (zAxis m')) \<and>
   winds_down (zAxis busy) ((zAxis busy)\<lparr>pendingPos := 4, motorPos := 1\<rparr>) \<and>
   \<not> winds_down (zAxis busy) ((zAxis busy)\<lparr>pendingPos := 20\<rparr>)"
  using disabled_axes_wind_down [where c = test_config and ts = "[tick_at 2000 0]"
      and L = all_locks and m = busy]
  by (auto simp: winds_down_def busy_z_sel split: sum.splits)

subsection \<open>Changing the pitch or the number of starts\<close>















subsection \<open>The enable counter of the drivers\<close>

lemma held_awake_refl: "held_awake 0 a a"
  by (simp add: held_awake_def)

lemma held_awake_enable:
  "0 \<le> stepperEnableCounter a \<Longrightarrow> held_awake 1 a (setOrigin lk (axis_setEnabled True a))"
  by (simp add: held_awake_def setOrigin_frame axis_setEnabled_def updateEnablePin_def Let_def)

lemma held_awake_trans:
  "held_awake k a b \<Longrightarrow> held_awake n b c \<Longrightarrow> 0 \<le> stepperEnableCounter a \<Longrightarrow> 0 \<le> k \<Longrightarrow>
   0 \<le> n \<Longrightarrow> held_awake (k + n) a c"
  by (auto simp: held_awake_def split: if_splits)

lemma held_awake_counter:
  "held_awake k a b \<Longrightarrow> 0 \<le> stepperEnableCounter a \<Longrightarrow> 0 \<le> k \<Longrightarrow> 0 \<le> stepperEnableCounter b"
  by (auto simp: held_awake_def split: if_splits)

lemma enables_simps:
  "enables [] = 0" "enables ((True, L) # cs) = 1 + enables cs"
  "enables ((False, L) # cs) = enables cs" "0 \<le> enables cs"
  by (simp_all add: enables_def)

lemma enable_a1_held:
  "\<not> systemEnabled m \<Longrightarrow> 0 \<le> stepperEnableCounter (a1Axis m) \<Longrightarrow>
   held_awake 1 (a1Axis m) (a1Axis (motion_setEnabled L True m))"
  by (simp add: enable_a1Axis held_awake_enable)
    (simp add: held_awake_def isActive_def)

text \<open>
  Claim C10 fails on the code for an axis whose driver does not need rest: the X axis of
  the lathe is active, and after one coordinator enable its counter is still 0, because
  the axis-level \<^verbatim>\<open>setEnabled\<close> returns at once unless \<^verbatim>\<open>needsRest\<close> and \<^verbatim>\<open>active\<close> are
  both set.
\<close>

theorem enable_counter_counterexample:
  "isActive (xAxis lathe) \<and> stepperEnableCounter (xAxis lathe) = 0 \<and>
   enables [(True, all_locks)] = 1 \<and>
   systemEnabled (switching [(True, all_locks)] lathe) \<and>
   stepperEnableCounter (xAxis (switching [(True, all_locks)] lathe)) = 0"
  by (simp add: lathe_sel enable_frame enable_xAxis enables_simps isActive_def axes_sel
      setOrigin_frame axis_setEnabled_def x_config_def)

text \<open>
  Claim C10 as amended. Along every alternating sequence of coordinator
  \<^verbatim>\<open>setEnabled\<close> calls (starting with the call that changes the state) from non-negative
  counters, each active axis whose driver needs rest has its counter raised by the number
  \<open>n\<close> of enables and never lowered, so from 0 the counter is \<open>n\<close> and is not 0 again
  after the first enable; its enable pin is written \<^verbatim>\<open>HIGH\<close> at the first enable (the
  axis not being \<^verbatim>\<open>disabled\<close>) and stays so, also when the sequence ends with the
  coordinator switched off. An axis that is inactive or needs no rest keeps its counter
  and its pin.
\<close>

theorem enable_counter_never_released:
  assumes "alternating (\<not> systemEnabled m) cs"
    and "0 \<le> stepperEnableCounter (zAxis m)" and "0 \<le> stepperEnableCounter (xAxis m)"
    and "0 \<le> stepperEnableCounter (a1Axis m)"
  shows "held_awake (enables cs) (zAxis m) (zAxis (switching cs m)) \<and>
         held_awake (enables cs) (xAxis m) (xAxis (switching cs m)) \<and>
         held_awake (enables cs) (a1Axis m) (a1Axis (switching cs m))"
  using assms
proof (induction cs arbitrary: m)
  case Nil
  then show ?case by (simp add: enables_simps held_awake_refl)
next
  case (Cons cmd cs)
  obtain enable L where cmd: "cmd = (enable, L)" by (cases cmd)
  let ?m1 = "motion_setEnabled L enable m"
  show ?case
  proof (cases enable)
    case True
    with Cons.prems cmd have off: "\<not> systemEnabled m" and alt: "alternating False cs"
      by auto
    have s1: "systemEnabled ?m1" using off True by (simp add: enable_frame)
    have z1: "held_awake 1 (zAxis m) (zAxis ?m1)"
      using off True Cons.prems by (simp add: enable_zAxis held_awake_enable)
    have x1: "held_awake 1 (xAxis m) (xAxis ?m1)"
      using off True Cons.prems by (simp add: enable_xAxis held_awake_enable)
    have a1: "held_awake 1 (a1Axis m) (a1Axis ?m1)"
      using off True Cons.prems by (simp add: enable_a1_held)
    have nn: "0 \<le> stepperEnableCounter (zAxis ?m1)" "0 \<le> stepperEnableCounter (xAxis ?m1)"
      "0 \<le> stepperEnableCounter (a1Axis ?m1)"
      using z1 x1 a1 Cons.prems by (auto dest: held_awake_counter)
    have ih: "held_awake (enables cs) (zAxis ?m1) (zAxis (switching cs ?m1)) \<and>
              held_awake (enables cs) (xAxis ?m1) (xAxis (switching cs ?m1)) \<and>
              held_awake (enables cs) (a1Axis ?m1) (a1Axis (switching cs ?m1))"
      using Cons.IH [of ?m1] s1 alt nn by simp
    show ?thesis
      using ih z1 x1 a1 Cons.prems True cmd
      by (simp add: enables_simps held_awake_trans)
  next
    case False
    with Cons.prems cmd have on: "systemEnabled m" and alt: "alternating True cs"
      by auto
    have s1: "\<not> systemEnabled ?m1" using False by (simp add: disable_frame)
    have ih: "held_awake (enables cs) (zAxis ?m1) (zAxis (switching cs ?m1)) \<and>
              held_awake (enables cs) (xAxis ?m1) (xAxis (switching cs ?m1)) \<and>
              held_awake (enables cs) (a1Axis ?m1) (a1Axis (switching cs ?m1))"
      using Cons.IH [of ?m1] s1 alt Cons.prems False by (simp add: disable_frame)
    then show ?thesis
      using False cmd by (simp add: enables_simps disable_frame)
  qed
qed

theorem enable_counter_never_released_witness:
  "alternating (\<not> systemEnabled lathe)
     [(True, all_locks), (False, all_locks), (True, all_locks), (False, all_locks)] \<and>
   \<not> systemEnabled (switching [(True, all_locks), (False, all_locks), (True, all_locks),
                                (False, all_locks)] lathe) \<and>
   stepperEnableCounter (zAxis (switching [(True, all_locks), (False, all_locks),
                                           (True, all_locks), (False, all_locks)] lathe)) = 2 \<and>
   enaPin (zAxis (switching [(True, all_locks), (False, all_locks), (True, all_locks),
                             (False, all_locks)] lathe)) \<and>
   stepperEnableCounter (xAxis (switching [(True, all_locks), (False, all_locks),
                                           (True, all_locks), (False, all_locks)] lathe)) = 0"
proof -
  let ?cs = "[(True, all_locks), (False, all_locks), (True, all_locks), (False, all_locks)]"
  have h: "alternating (\<not> systemEnabled lathe) ?cs" "0 \<le> stepperEnableCounter (zAxis lathe)"
    "0 \<le> stepperEnableCounter (xAxis lathe)" "0 \<le> stepperEnableCounter (a1Axis lathe)"
    by (simp_all add: lathe_sel axes_sel z_axis_def)
  have off: "\<not> systemEnabled (switching ?cs lathe)"
    by (simp add: disable_frame)
  from enable_counter_never_released [OF h] h(1) off show ?thesis
    by (simp add: held_awake_def enables_simps lathe_sel axes_sel z_axis_def z_config_def
        x_config_def)
qed

end
